theory Spec2Isabelle
  imports Main "HOL-Library.AList"
begin

section \<open>The drush module: data\<close>

text \<open>
  The module is one Python function, \<open>run_module\<close>. It reads four string
  parameters and the check-mode flag from the Ansible module object, spawns
  drush through \<open>module.run_command\<close> at most twice, builds the dictionary
  \<open>result\<close> and leaves through \<open>module.exit_json\<close>, \<open>module.fail_json\<close> or
  a Python exception.

  Python values that can end up in \<open>result\<close>: the booleans, integers and strings the
  module stores itself, and whatever \<open>json.loads\<close> decodes. The module never computes
  with a float, so a float is carried as the literal it was read from.
\<close>

datatype pyval =
    PNone
  | PBool bool
  | PInt int
  | PFloat string
  | PStr string
  | PList "pyval list"
  | PDict "(string \<times> pyval) list"

text \<open>
  A Python dict with string keys, in insertion order. \<open>d[k] = v\<close> is
  \<open>AList.update k v d\<close>: an existing key keeps its place and takes the new value, a
  new key goes to the end. \<open>map_of d k\<close> reads a key.
\<close>

type_synonym pydict = "(string \<times> pyval) list"

text \<open>\<open>module.params\<close>: \<open>path\<close> and \<open>command\<close> are required, \<open>name\<close> and
  \<open>value\<close> default to the empty string; all four have type \<open>str\<close>.\<close>

record params =
  param_path :: string
  param_command :: string
  param_name :: string
  param_value :: string

text \<open>The result of one spawned process: \<open>rc, out, err\<close>.\<close>

type_synonym proc_result = "int \<times> string \<times> string"

text \<open>
  The Ansible module object, as far as \<open>run_module\<close> uses it. \<open>bin_path\<close> is what
  \<open>module.get_bin_path('drush', required=True)\<close> returned. \<open>run_command\<close> is the only
  effect on the outside: it takes the command line, the working directory and the state
  of the outside world, and gives the process result and the new state of the world.
\<close>

record 'w ansible_module =
  params :: params
  check_mode :: bool
  bin_path :: string
  run_command :: "string \<Rightarrow> string \<Rightarrow> 'w \<Rightarrow> proc_result \<times> 'w"

text \<open>Python exceptions that \<open>run_module\<close> can leave with.\<close>

datatype exn =
    UnboundLocalError string
  | ValueError
  | TypeError

text \<open>How one invocation ends: \<open>exit_json(**result)\<close>,
  \<open>fail_json(msg=..., **result)\<close>, or an uncaught exception. An outcome holds
  the dictionary as the module passes it; what Ansible does with it once the call is
  accepted is outside the module.\<close>

datatype outcome =
    Exit_json pydict
  | Fail_json string pydict
  | Raised exn

text \<open>
  The local variables of \<open>run_module\<close> that change: \<open>command\<close>, \<open>result\<close>,
  the triple \<open>rc, out, err\<close> (assigned together, unbound until the first
  \<open>run_command\<close>) and \<open>original_value\<close> (unbound unless the baseline was read).
  With them the log of spawned processes (command line and working directory) and the
  state of the world.
\<close>

record 'w locals =
  l_command :: string
  l_result :: pydict
  l_proc :: "proc_result option"
  l_original_value :: "string option"
  l_spawned :: "(string \<times> string) list"
  l_world :: 'w

section \<open>Library functions\<close>

text \<open>
  \<open>str.rstrip()\<close> without argument removes trailing whitespace. Strings are
  modelled on code points below 256, where the whitespace of a Python 3 \<open>str\<close> is
  0x09 to 0x0D, 0x1C to 0x20, 0x85 and 0xA0.
\<close>

definition py_isspace :: "char \<Rightarrow> bool" where
  "py_isspace c =
     (let n = of_char c :: nat
      in (9 \<le> n \<and> n \<le> 13) \<or> (28 \<le> n \<and> n \<le> 32) \<or> n = 133 \<or> n = 160)"

definition rstrip :: "string \<Rightarrow> string" where
  "rstrip s = rev (dropWhile py_isspace (rev s))"

text \<open>
  \<open>json.dumps\<close> of a \<open>str\<close> with the default \<open>ensure_ascii\<close>: the text between
  double quotes, with backslash and double quote escaped, the short escapes for
  backspace, form feed, newline, carriage return and tab, and \<open>\<^verbatim>\<open>\u00xx\<close>\<close> for every
  other code point outside space to tilde.
\<close>

definition hex_digit :: "nat \<Rightarrow> char" where
  "hex_digit d = (if d < 10 then char_of (48 + d) else char_of (87 + d))"

definition json_escape :: "char \<Rightarrow> string" where
  "json_escape c =
     (let n = of_char c :: nat
      in if n = 92 then [CHR 0x5C, CHR 0x5C]
         else if n = 34 then [CHR 0x5C, CHR 0x22]
         else if n = 8 then [CHR 0x5C, CHR ''b'']
         else if n = 12 then [CHR 0x5C, CHR ''f'']
         else if n = 10 then [CHR 0x5C, CHR ''n'']
         else if n = 13 then [CHR 0x5C, CHR ''r'']
         else if n = 9 then [CHR 0x5C, CHR ''t'']
         else if 32 \<le> n \<and> n \<le> 126 then [c]
         else [CHR 0x5C, CHR ''u'', CHR ''0'', CHR ''0'', hex_digit (n div 16), hex_digit (n mod 16)])"

definition json_dumps :: "string \<Rightarrow> string" where
  "json_dumps s = [CHR 0x22] @ concat (map json_escape s) @ [CHR 0x22]"

section \<open>run_module\<close>

text \<open>The seed of \<open>result\<close>.\<close>

definition initial_result :: pydict where
  "initial_result =
     [(''changed'', PBool False), (''rc'', PInt 0), (''stderr'', PStr ''''),
      (''stdout'', PStr '''')]"

text \<open>
  Parameter checking for the known commands. \<open>fail_json\<close> ends the process, so the
  first failing check decides; it is called with \<open>msg\<close> only.
\<close>

definition check_params :: "params \<Rightarrow> string option" where
  "check_params p =
     (if param_command p = ''variable-get'' \<and> param_name p = ''''
        then Some ''Variable name required''
      else if param_command p = ''variable-set'' then
        (if param_name p = '''' then Some ''Variable name required''
         else if param_command p = ''variable-set'' \<and> param_value p = ''''
           then Some ''Variable value required''
         else None)
      else None)"

text \<open>\<open>rc, out, err = module.run_command(cmd, cwd=module.params['path'])\<close>.\<close>

definition spawn :: "'w ansible_module \<Rightarrow> string \<Rightarrow> 'w locals \<Rightarrow> proc_result \<times> 'w locals" where
  "spawn m cmd s =
     (let cwd = param_path (params m);
          (r, w') = run_command m cmd cwd (l_world s)
      in (r, s\<lparr>l_proc := Some r, l_spawned := l_spawned s @ [(cmd, cwd)], l_world := w'\<rparr>))"

text \<open>
  For \<open>variable-set\<close>: in check mode the command becomes \<open>variable-get\<close>; otherwise
  the original value is read with \<open>vget\<close> and errors of that read are ignored.
\<close>

definition vget_cmd :: "string \<Rightarrow> string \<Rightarrow> string" where
  "vget_cmd drush name = drush @ '' vget --format=string --exact '' @ name"

definition save_original :: "'w ansible_module \<Rightarrow> 'w locals \<Rightarrow> 'w locals" where
  "save_original m s =
     (if l_command s = ''variable-set'' then
        (if check_mode m then s\<lparr>l_command := ''variable-get''\<rparr>
         else
           (let cmd = vget_cmd (bin_path m) (param_name (params m));
                ((rc, out, err), s1) = spawn m cmd s;
                original_value = (if rc = 0 then rstrip out else '''')
            in s1\<lparr>l_original_value := Some original_value,
                  l_result := AList.update ''original_value'' (PStr original_value) (l_result s1)\<rparr>))
      else s)"

text \<open>The command line.\<close>

definition hates_format :: "string set" where
  "hates_format = {''updb'', ''updatedb'', ''cc'', ''cache-clear''}"

definition cmd_extra :: "string \<Rightarrow> string \<Rightarrow> string \<Rightarrow> string" where
  "cmd_extra command name val =
     (let e0 = '''';
          e1 = (if name \<noteq> '''' then e0 @ '' '' @ name else e0);
          e2 = (if command = ''variable-get'' \<or> command = ''variable-set''
                then e1 @ '' --exact'' else e1)
      in if command = ''variable-set''
         then e2 @ '' '' @ [CHR 0x27] @ json_dumps val @ [CHR 0x27]
         else (if val \<noteq> '''' then e2 @ '' '' @ val else e2))"

definition command_line :: "string \<Rightarrow> string \<Rightarrow> string \<Rightarrow> string \<Rightarrow> string" where
  "command_line drush command name val =
     (let extra = cmd_extra command name val;
          format = (if command \<notin> hates_format then ''--format=json'' else '''')
      in drush @ '' '' @ command @ '' --nocolor -y '' @ format @ extra)"

definition safe_commands :: "string set" where
  "safe_commands =
     {''config-get'', ''core-requirements'', ''core-status'', ''drupal-directory'',
      ''pm-info'', ''pm-list'', ''pm-projectinfo'', ''search-status'', ''state-get'',
      ''status'', ''user-information'', ''variable-get'', ''watchdog-list'',
      ''watchdog-show''}"

text \<open>
  After a run with exit code 0: decode the output and store it. \<open>json.loads\<close> is
  a parameter, \<open>None\<close> where it raises \<open>ValueError\<close>.
\<close>

definition store_payload ::
  "(string \<Rightarrow> pyval option) \<Rightarrow> 'w ansible_module \<Rightarrow> string \<Rightarrow> 'w locals \<Rightarrow> exn + 'w locals" where
  "store_payload loads m out s =
     (case (if out = '''' then Some (PList []) else loads out) of
        None \<Rightarrow> Inl ValueError
      | Some v \<Rightarrow>
          (if l_command s = ''variable-get'' then
             (let s1 = s\<lparr>l_result := AList.update (param_name (params m)) v (l_result s)\<rparr>
              in if check_mode m \<and> param_command (params m) = ''variable-set''
                 then Inr (s1\<lparr>l_result :=
                        AList.update ''changed'' (PBool (v \<noteq> PStr (param_value (params m))))
                          (l_result s1)\<rparr>)
                 else Inr s1)
           else (if out \<noteq> ''''
                 then Inr (s\<lparr>l_result := AList.update ''drush'' v (l_result s)\<rparr>)
                 else Inr s)))"

text \<open>Determine if anything was changed; runs whatever the exit code was.\<close>

definition determine_changed :: "'w ansible_module \<Rightarrow> 'w locals \<Rightarrow> exn + 'w locals" where
  "determine_changed m s =
     (if l_command s \<notin> safe_commands then
        (if l_command s = ''variable-set'' then
           (case l_original_value s of
              None \<Rightarrow> Inl (UnboundLocalError ''original_value'')
            | Some original_value \<Rightarrow>
                Inr (s\<lparr>l_result :=
                       AList.update ''changed''
                         (PBool (original_value \<noteq> param_value (params m))) (l_result s)\<rparr>))
         else Inr (s\<lparr>l_result := AList.update ''changed'' (PBool True) (l_result s)\<rparr>))
      else Inr s)"

text \<open>Run drush; in check mode only if the command is safe.\<close>

definition execute ::
  "(string \<Rightarrow> pyval option) \<Rightarrow> 'w ansible_module \<Rightarrow> string \<Rightarrow> 'w locals \<Rightarrow> exn option \<times> 'w locals" where
  "execute loads m cmd s =
     (if \<not> check_mode m \<or> l_command s \<in> safe_commands then
        (let ((rc, out, err), s1) = spawn m cmd s;
             s2 = s1\<lparr>l_result :=
                    AList.update ''stdout'' (PStr out)
                      (AList.update ''stderr'' (PStr err)
                        (AList.update ''rc'' (PInt rc) (l_result s1)))\<rparr>
         in case (if rc = 0 then store_payload loads m out s2 else Inr s2) of
              Inl e \<Rightarrow> (Some e, s2)
            | Inr s3 \<Rightarrow>
                (case determine_changed m s3 of
                   Inl e \<Rightarrow> (Some e, s3)
                 | Inr s4 \<Rightarrow> (None, s4)))
      else (None, s))"

text \<open>
  Leaving the module. In Ansible the two methods are declared
  \<open>exit_json(self, **kwargs)\<close> and \<open>fail_json(self, msg, **kwargs)\<close>, and the module
  calls them with \<open>**result\<close>: a key \<open>self\<close> in the result (and, for
  \<open>fail_json(msg=err, **result)\<close>, a key \<open>msg\<close>) is a second value for an argument
  already given, and the call raises \<open>TypeError\<close> instead of returning the result.
\<close>

definition exit_json :: "pydict \<Rightarrow> outcome" where
  "exit_json res = (if map_of res ''self'' = None then Exit_json res else Raised TypeError)"

definition fail_json :: "string \<Rightarrow> pydict \<Rightarrow> outcome" where
  "fail_json msg res =
     (if map_of res ''self'' = None \<and> map_of res ''msg'' = None then Fail_json msg res
      else Raised TypeError)"

text \<open>
  The end of \<open>run_module\<close>: \<open>rc\<close> is read, which raises when no process has run;
  a nonzero \<open>rc\<close> fails with \<open>err\<close> and the result; otherwise the result is
  returned, in check mode and out of it.
\<close>

definition finish :: "'w ansible_module \<Rightarrow> 'w locals \<Rightarrow> outcome" where
  "finish m s =
     (case l_proc s of
        None \<Rightarrow> Raised (UnboundLocalError ''rc'')
      | Some (rc, out, err) \<Rightarrow>
          (if rc \<noteq> 0 then fail_json err (l_result s)
           else (if check_mode m then exit_json (l_result s) else exit_json (l_result s))))"

text \<open>
  One invocation, from the state \<open>w\<close> of the world: how it ends, the processes it
  spawned in order, and the state of the world after it.
\<close>

definition run_module ::
  "(string \<Rightarrow> pyval option) \<Rightarrow> 'w ansible_module \<Rightarrow> 'w \<Rightarrow> outcome \<times> (string \<times> string) list \<times> 'w" where
  "run_module loads m w =
     (case check_params (params m) of
        Some msg \<Rightarrow> (fail_json msg [], [], w)
      | None \<Rightarrow>
          (let s0 = \<lparr>l_command = param_command (params m), l_result = initial_result,
                     l_proc = None, l_original_value = None, l_spawned = [], l_world = w\<rparr>;
               s1 = save_original m s0;
               cmd = command_line (bin_path m) (l_command s1) (param_name (params m))
                       (param_value (params m));
               s2 = s1\<lparr>l_result := AList.update ''cmd'' (PStr cmd) (l_result s1)\<rparr>;
               (raised, s3) = execute loads m cmd s2
           in case raised of
                Some e \<Rightarrow> (Raised e, l_spawned s3, l_world s3)
              | None \<Rightarrow> (finish m s3, l_spawned s3, l_world s3)))"

section \<open>A scripted outside world\<close>

text \<open>
  For concrete runs: the world is the queue of results that the next processes will
  give, whatever their command line; an exhausted queue answers 127. The decoder knows
  the JSON literals, the number 0 and strings without escapes, and rejects the rest.
\<close>

definition replay :: "string \<Rightarrow> string \<Rightarrow> proc_result list \<Rightarrow> proc_result \<times> proc_result list" where
  "replay cmd cwd rs = (case rs of [] \<Rightarrow> ((127, '''', ''''), []) | r # rs' \<Rightarrow> (r, rs'))"

definition loads_scalar :: "string \<Rightarrow> pyval option" where
  "loads_scalar s =
     (if s = ''true'' then Some (PBool True)
      else if s = ''false'' then Some (PBool False)
      else if s = ''null'' then Some PNone
      else if s = ''0'' then Some (PInt 0)
      else if 2 \<le> length s \<and> hd s = CHR 0x22 \<and> last s = CHR 0x22
              \<and> list_all (\<lambda>c. c \<noteq> CHR 0x22 \<and> c \<noteq> CHR 0x5C \<and> 32 \<le> (of_char c :: nat))
                    (butlast (tl s))
        then Some (PStr (butlast (tl s)))
      else None)"

definition request :: "string \<Rightarrow> string \<Rightarrow> string \<Rightarrow> bool \<Rightarrow> proc_result list ansible_module" where
  "request c n v chk =
     \<lparr>params = \<lparr>param_path = ''/var/www'', param_command = c, param_name = n, param_value = v\<rparr>,
      check_mode = chk, bin_path = ''/usr/bin/drush'', run_command = replay\<rparr>"

section \<open>Reading an outcome; the order of the specification\<close>

text \<open>The result that reaches the caller: the keyword arguments of \<open>exit_json\<close> or
  \<open>fail_json\<close>, none after an exception.\<close>

definition reported :: "outcome \<Rightarrow> pydict option" where
  "reported oc =
     (case oc of Exit_json res \<Rightarrow> Some res | Fail_json msg res \<Rightarrow> Some res | Raised e \<Rightarrow> None)"

text \<open>
  The command line with its parts in the order in which the specification lists them:
  tool and sub-command, the machine-readable output flag, the non-interactive and
  no-color flags, the name, the exact-match flag, the value. It is compared with
  \<open>command_line\<close> below.
\<close>

definition spec_order_command_line :: "string \<Rightarrow> string \<Rightarrow> string \<Rightarrow> string \<Rightarrow> string" where
  "spec_order_command_line drush command name val =
     drush @ '' '' @ command
       @ (if command \<in> hates_format then '''' else '' --format=json'')
       @ '' --nocolor -y''
       @ (if name = '''' then '''' else '' '' @ name)
       @ (if command = ''variable-get'' \<or> command = ''variable-set'' then '' --exact'' else '''')
       @ (if command = ''variable-set'' then '' '' @ [CHR 0x27] @ json_dumps val @ [CHR 0x27]
          else if val = '''' then '''' else '' '' @ val)"

section \<open>Unfolding one invocation\<close>

lemmas run_defs =
  run_module_def check_params_def save_original_def execute_def finish_def
  exit_json_def fail_json_def
  spawn_def store_payload_def determine_changed_def initial_result_def

lemma variable_get_safe: "''variable-get'' \<in> safe_commands"
  by (simp add: safe_commands_def)

lemma variable_set_unsafe: "''variable-set'' \<notin> safe_commands"
  by (simp add: safe_commands_def)

section \<open>Check mode and commands that are not safe\<close>

text \<open>
  C1. In check mode, a command that is neither in \<open>safe_commands\<close> nor
  \<open>variable-set\<close> spawns no process, and the module is meant to return the seeded
  result (\<open>changed\<close> false, \<open>rc\<close> 0). No process is spawned indeed, but the local
  variable \<open>rc\<close> is only assigned by \<open>run_command\<close>, so the test \<open>rc != 0\<close> at the
  end raises \<open>UnboundLocalError\<close> and no result is returned.
\<close>

theorem check_mode_unsafe_command_raises:
  assumes "check_mode m"
    and "param_command (params m) \<notin> safe_commands"
    and "param_command (params m) \<noteq> ''variable-set''"
  shows "run_module loads m w = (Raised (UnboundLocalError ''rc''), [], w)"
proof -
  from assms(2) have "param_command (params m) \<noteq> ''variable-get''"
    by (auto simp: safe_commands_def)
  with assms show ?thesis
    by (simp add: run_module_def check_params_def save_original_def execute_def finish_def)
qed

theorem check_mode_unsafe_command_raises_witness:
  "check_mode (request ''cc'' ''all'' '''' True)
   \<and> ''cc'' \<notin> safe_commands
   \<and> run_module loads_scalar (request ''cc'' ''all'' '''' True) [(0, '''', '''')]
       = (Raised (UnboundLocalError ''rc''), [], [(0, '''', '''')])"
  using check_mode_unsafe_command_raises
    [of "request ''cc'' ''all'' '''' True" loads_scalar "[(0, '''', '''')]"]
  by (simp add: request_def safe_commands_def)

section \<open>Parameter checking\<close>

text \<open>
  C4. A \<open>variable-get\<close> request with an empty name, and a \<open>variable-set\<close> request
  with an empty name or an empty value, fail with the message for the missing parameter
  (the name first), with no result attached, before any process is spawned: the log is
  empty and the world is untouched.
\<close>

theorem missing_parameter_fails_before_spawn:
  assumes "(param_command (params m) = ''variable-get'' \<and> param_name (params m) = '''')
           \<or> (param_command (params m) = ''variable-set''
               \<and> (param_name (params m) = '''' \<or> param_value (params m) = ''''))"
  shows "run_module loads m w =
           (Fail_json (if param_name (params m) = '''' then ''Variable name required''
                       else ''Variable value required'') [], [], w)"
  using assms by (auto simp: run_module_def check_params_def fail_json_def)

theorem missing_parameter_fails_before_spawn_witness:
  "run_module loads_scalar (request ''variable-get'' '''' '''' False) [(0, ''0'', '''')]
     = (Fail_json ''Variable name required'' [], [], [(0, ''0'', '''')])
   \<and> run_module loads_scalar (request ''variable-set'' ''site_name'' '''' True) [(0, ''0'', '''')]
     = (Fail_json ''Variable value required'' [], [], [(0, ''0'', '''')])"
  using missing_parameter_fails_before_spawn
      [of "request ''variable-get'' '''' '''' False" loads_scalar "[(0, ''0'', '''')]"]
    missing_parameter_fails_before_spawn
      [of "request ''variable-set'' ''site_name'' '''' True" loads_scalar "[(0, ''0'', '''')]"]
  by (simp add: request_def)

section \<open>variable-set in check mode\<close>

text \<open>
  C2. A \<open>variable-set\<close> request in check mode runs \<open>variable-get\<close> in its place:
  whatever that process answers, it is the only process spawned. When it exits 0 and
  its output decodes to \<open>v\<close> (the empty list for empty output), \<open>changed\<close> is set
  to \<open>v != value\<close>, the decoded current value against the requested one, and the
  module exits with it. It does so for every variable but the one called \<open>self\<close>:
  \<open>v\<close> has been stored under the name of the variable, and for that key
  \<open>exit_json(**result)\<close> raises \<open>TypeError\<close>, so that no outcome is returned.
\<close>

theorem check_mode_variable_set_reads_only:
  assumes "check_mode m"
    and "param_command (params m) = ''variable-set''"
    and "param_name (params m) \<noteq> ''''" and "param_value (params m) \<noteq> ''''"
    and "cmd = bin_path m @ '' variable-get --nocolor -y --format=json '' @ param_name (params m)
                 @ '' --exact '' @ param_value (params m)"
    and "run_command m cmd (param_path (params m)) w = ((rc, out, err), w')"
  shows "snd (run_module loads m w) = ([(cmd, param_path (params m))], w')
         \<and> (rc = 0 \<and> (if out = '''' then Some (PList []) else loads out) = Some v \<longrightarrow>
              (if param_name (params m) = ''self''
               then fst (run_module loads m w) = Raised TypeError
               else (\<exists>res. fst (run_module loads m w) = Exit_json res
                      \<and> map_of res ''changed''
                          = Some (PBool (v \<noteq> PStr (param_value (params m)))))))"
proof -
  have cl: "command_line (bin_path m) ''variable-get'' (param_name (params m))
              (param_value (params m)) = cmd"
    using assms(3,4,5) by (simp add: command_line_def cmd_extra_def hates_format_def)
  show ?thesis
    using assms(1-4,6) cl variable_get_safe
    by (auto simp: run_defs Let_def update_conv' split: if_splits option.splits sum.splits)
qed

theorem check_mode_variable_set_reads_only_witness:
  "check_mode (request ''variable-set'' ''page_cache_maximum_age'' ''3600'' True)
   \<and> snd (run_module loads_scalar (request ''variable-set'' ''page_cache_maximum_age'' ''3600'' True)
            [(0, [CHR 0x22] @ ''1800'' @ [CHR 0x22], '''')])
       = ([(''/usr/bin/drush variable-get --nocolor -y --format=json page_cache_maximum_age --exact 3600'',
            ''/var/www'')], [])
   \<and> (\<exists>res. fst (run_module loads_scalar
                    (request ''variable-set'' ''page_cache_maximum_age'' ''3600'' True)
                    [(0, [CHR 0x22] @ ''1800'' @ [CHR 0x22], '''')]) = Exit_json res
          \<and> map_of res ''changed'' = Some (PBool True))
   \<and> run_module loads_scalar (request ''variable-set'' ''self'' ''3600'' True)
         [(0, [CHR 0x22] @ ''1800'' @ [CHR 0x22], '''')]
       = (Raised TypeError,
          [(''/usr/bin/drush variable-get --nocolor -y --format=json self --exact 3600'',
            ''/var/www'')], [])"
  using check_mode_variable_set_reads_only
      [where m = "request ''variable-set'' ''page_cache_maximum_age'' ''3600'' True"
         and loads = loads_scalar
         and w = "[(0, [CHR 0x22] @ ''1800'' @ [CHR 0x22], '''')]"
         and cmd = "''/usr/bin/drush variable-get --nocolor -y --format=json page_cache_maximum_age --exact 3600''"
         and rc = 0 and out = "[CHR 0x22] @ ''1800'' @ [CHR 0x22]" and err = "''''" and w' = "[]"
         and v = "PStr ''1800''"]
    check_mode_variable_set_reads_only
      [where m = "request ''variable-set'' ''self'' ''3600'' True"
         and loads = loads_scalar
         and w = "[(0, [CHR 0x22] @ ''1800'' @ [CHR 0x22], '''')]"
         and cmd = "''/usr/bin/drush variable-get --nocolor -y --format=json self --exact 3600''"
         and rc = 0 and out = "[CHR 0x22] @ ''1800'' @ [CHR 0x22]" and err = "''''" and w' = "[]"
         and v = "PStr ''1800''"]
  by (simp add: request_def replay_def loads_scalar_def prod_eq_iff)

text \<open>
  C5. The read of the current value in check mode is the main command of the
  invocation, not the tolerated baseline read: when it exits with a nonzero code the
  module fails with its \<open>stderr\<close>, and nothing treats the failure as "no prior value".
  Only the \<open>vget\<close> of a real run ignores errors.
\<close>

theorem check_mode_variable_set_read_failure_is_fatal:
  assumes "check_mode m"
    and "param_command (params m) = ''variable-set''"
    and "param_name (params m) \<noteq> ''''" and "param_value (params m) \<noteq> ''''"
    and "cmd = command_line (bin_path m) ''variable-get'' (param_name (params m))
                 (param_value (params m))"
    and "run_command m cmd (param_path (params m)) w = ((rc, out, err), w')"
    and "rc \<noteq> 0"
  shows "run_module loads m w =
           (Fail_json err
              [(''changed'', PBool False), (''rc'', PInt rc), (''stderr'', PStr err),
               (''stdout'', PStr out), (''cmd'', PStr cmd)],
            [(cmd, param_path (params m))], w')"
  using assms(1-4,6,7) variable_get_safe unfolding assms(5)
  by (auto simp: run_defs Let_def update_conv' split: if_splits option.splits sum.splits)

theorem check_mode_variable_set_read_failure_is_fatal_witness:
  "check_mode (request ''variable-set'' ''page_cache_maximum_age'' ''3600'' True)
   \<and> run_module loads_scalar (request ''variable-set'' ''page_cache_maximum_age'' ''3600'' True)
        [(1, '''', ''No matching variable found.'')]
     = (Fail_json ''No matching variable found.''
          [(''changed'', PBool False), (''rc'', PInt 1),
           (''stderr'', PStr ''No matching variable found.''), (''stdout'', PStr ''''),
           (''cmd'', PStr ''/usr/bin/drush variable-get --nocolor -y --format=json page_cache_maximum_age --exact 3600'')],
        [(''/usr/bin/drush variable-get --nocolor -y --format=json page_cache_maximum_age --exact 3600'',
          ''/var/www'')], [])"
  using check_mode_variable_set_read_failure_is_fatal
    [where m = "request ''variable-set'' ''page_cache_maximum_age'' ''3600'' True"
       and loads = loads_scalar
       and w = "[(1, '''', ''No matching variable found.'')]"
       and cmd = "''/usr/bin/drush variable-get --nocolor -y --format=json page_cache_maximum_age --exact 3600''"
       and rc = 1 and out = "''''" and err = "''No matching variable found.''" and w' = "[]"]
  by (simp add: request_def replay_def command_line_def cmd_extra_def hates_format_def)

section \<open>variable-set in a real run\<close>

text \<open>
  C3. A \<open>variable-set\<close> request outside check mode spawns two processes in this order:
  the \<open>vget\<close> of the current value, then the set. The original value is the output of
  the \<open>vget\<close> with trailing whitespace removed when it exits 0, and the empty string
  for any other exit code. When the set exits 0 (and its output is empty or decodes),
  the module exits with that original value in the result and \<open>changed\<close> equal to
  \<open>original_value != value\<close>.
\<close>

theorem variable_set_baseline_then_set:
  assumes "\<not> check_mode m"
    and "param_command (params m) = ''variable-set''"
    and "param_name (params m) \<noteq> ''''" and "param_value (params m) \<noteq> ''''"
    and "gcmd = vget_cmd (bin_path m) (param_name (params m))"
    and "scmd = command_line (bin_path m) ''variable-set'' (param_name (params m))
                  (param_value (params m))"
    and "run_command m gcmd (param_path (params m)) w = ((rc0, out0, err0), w1)"
    and "run_command m scmd (param_path (params m)) w1 = ((rc, out, err), w2)"
    and "original_value = (if rc0 = 0 then rstrip out0 else '''')"
  shows "snd (run_module loads m w)
           = ([(gcmd, param_path (params m)), (scmd, param_path (params m))], w2)
         \<and> (rc = 0 \<and> (if out = '''' then Some (PList []) else loads out) = Some v \<longrightarrow>
              (\<exists>res. fst (run_module loads m w) = Exit_json res
                 \<and> map_of res ''original_value'' = Some (PStr original_value)
                 \<and> map_of res ''changed''
                     = Some (PBool (original_value \<noteq> param_value (params m)))))"
  using assms(1-4,7,8) variable_set_unsafe unfolding assms(5,6,9)
  by (auto simp: run_defs Let_def update_conv' split: if_splits option.splits sum.splits)

theorem variable_set_baseline_then_set_witness:
  "\<not> check_mode (request ''variable-set'' ''page_cache_maximum_age'' ''3600'' False)
   \<and> rstrip (''1800'' @ [CHR 0x0A]) = ''1800''
   \<and> snd (run_module loads_scalar (request ''variable-set'' ''page_cache_maximum_age'' ''3600'' False)
            [(0, ''1800'' @ [CHR 0x0A], ''''), (0, '''', '''')])
       = ([(''/usr/bin/drush vget --format=string --exact page_cache_maximum_age'', ''/var/www''),
           (''/usr/bin/drush variable-set --nocolor -y --format=json page_cache_maximum_age --exact ''
              @ [CHR 0x27, CHR 0x22] @ ''3600'' @ [CHR 0x22, CHR 0x27], ''/var/www'')], [])
   \<and> (\<exists>res. fst (run_module loads_scalar
                    (request ''variable-set'' ''page_cache_maximum_age'' ''3600'' False)
                    [(0, ''1800'' @ [CHR 0x0A], ''''), (0, '''', '''')]) = Exit_json res
          \<and> map_of res ''original_value'' = Some (PStr ''1800'')
          \<and> map_of res ''changed'' = Some (PBool True))"
  using variable_set_baseline_then_set
    [where m = "request ''variable-set'' ''page_cache_maximum_age'' ''3600'' False"
       and loads = loads_scalar
       and w = "[(0, ''1800'' @ [CHR 0x0A], ''''), (0, '''', '''')]"
       and gcmd = "''/usr/bin/drush vget --format=string --exact page_cache_maximum_age''"
       and scmd = "''/usr/bin/drush variable-set --nocolor -y --format=json page_cache_maximum_age --exact ''
              @ [CHR 0x27, CHR 0x22] @ ''3600'' @ [CHR 0x22, CHR 0x27]"
       and ?rc0.0 = 0 and ?out0.0 = "''1800'' @ [CHR 0x0A]" and ?err0.0 = "''''"
       and ?w1.0 = "[(0, '''', '''')]"
       and rc = 0 and out = "''''" and err = "''''" and ?w2.0 = "[]"
       and original_value = "''1800''" and v = "PList []"]
  by (simp add: request_def replay_def vget_cmd_def command_line_def cmd_extra_def
        hates_format_def json_dumps_def json_escape_def rstrip_def py_isspace_def)

text \<open>
  C10. When the set of a real run exits with a nonzero code, the module fails with the
  \<open>stderr\<close> of the set, and the result passed to \<open>fail_json\<close> still holds the
  original value read before and \<open>changed\<close> equal to \<open>original_value != value\<close>:
  the change is determined whatever the exit code, before the failure is raised.
\<close>

theorem variable_set_failure_keeps_baseline:
  assumes "\<not> check_mode m"
    and "param_command (params m) = ''variable-set''"
    and "param_name (params m) \<noteq> ''''" and "param_value (params m) \<noteq> ''''"
    and "gcmd = vget_cmd (bin_path m) (param_name (params m))"
    and "scmd = command_line (bin_path m) ''variable-set'' (param_name (params m))
                  (param_value (params m))"
    and "run_command m gcmd (param_path (params m)) w = ((rc0, out0, err0), w1)"
    and "run_command m scmd (param_path (params m)) w1 = ((rc, out, err), w2)"
    and "rc \<noteq> 0"
    and "original_value = (if rc0 = 0 then rstrip out0 else '''')"
  shows "\<exists>res. fst (run_module loads m w) = Fail_json err res
           \<and> map_of res ''original_value'' = Some (PStr original_value)
           \<and> map_of res ''changed''
               = Some (PBool (original_value \<noteq> param_value (params m)))"
  using assms(1-4,7,8,9) variable_set_unsafe unfolding assms(5,6,10)
  by (auto simp: run_defs Let_def update_conv' split: if_splits option.splits sum.splits)

theorem variable_set_failure_keeps_baseline_witness:
  "\<not> check_mode (request ''variable-set'' ''site_name'' ''Example'' False)
   \<and> (\<exists>res. fst (run_module loads_scalar (request ''variable-set'' ''site_name'' ''Example'' False)
                    [(0, ''Example'' @ [CHR 0x0A], ''''), (2, '''', ''database is gone'')])
            = Fail_json ''database is gone'' res
          \<and> map_of res ''original_value'' = Some (PStr ''Example'')
          \<and> map_of res ''changed'' = Some (PBool False))"
  using variable_set_failure_keeps_baseline
    [where m = "request ''variable-set'' ''site_name'' ''Example'' False"
       and loads = loads_scalar
       and w = "[(0, ''Example'' @ [CHR 0x0A], ''''), (2, '''', ''database is gone'')]"
       and gcmd = "vget_cmd ''/usr/bin/drush'' ''site_name''"
       and scmd = "command_line ''/usr/bin/drush'' ''variable-set'' ''site_name'' ''Example''"
       and ?rc0.0 = 0 and ?out0.0 = "''Example'' @ [CHR 0x0A]" and ?err0.0 = "''''"
       and ?w1.0 = "[(2, '''', ''database is gone'')]"
       and rc = 2 and out = "''''" and err = "''database is gone''" and ?w2.0 = "[]"
       and original_value = "''Example''"]
  by (simp add: request_def replay_def rstrip_def py_isspace_def)

section \<open>The command line\<close>

text \<open>
  C7, as stated: the machine-readable output flag comes before the non-interactive and
  no-color flags. The format string of the module puts \<open>--nocolor -y\<close> first and the
  output flag after it, so already the line for \<open>core-status\<close> differs from the order
  of the specification.
\<close>

theorem command_line_not_in_spec_order:
  "command_line ''/usr/bin/drush'' ''core-status'' '''' ''''
     = ''/usr/bin/drush core-status --nocolor -y --format=json''
   \<and> spec_order_command_line ''/usr/bin/drush'' ''core-status'' '''' ''''
     = ''/usr/bin/drush core-status --format=json --nocolor -y''
   \<and> command_line ''/usr/bin/drush'' ''core-status'' '''' ''''
     \<noteq> spec_order_command_line ''/usr/bin/drush'' ''core-status'' '''' ''''"
  by (simp add: command_line_def cmd_extra_def hates_format_def spec_order_command_line_def)

text \<open>
  C7, amended. For every command, name and value the command line is, in this order:
  the tool and the sub-command; the flags \<open>--nocolor -y\<close>; the flag \<open>--format=json\<close>,
  left out exactly for \<open>updb\<close>, \<open>updatedb\<close>, \<open>cc\<close> and \<open>cache-clear\<close>; the
  name when it is not empty; \<open>--exact\<close> for \<open>variable-get\<close> and \<open>variable-set\<close>;
  and the value, JSON-encoded between single quotes for \<open>variable-set\<close>, as it is when
  not empty for any other command. The command is the one that runs: \<open>variable-get\<close>
  for a \<open>variable-set\<close> request in check mode.
\<close>

theorem command_line_order:
  "command_line drush command name val =
     concat
       [drush @ '' '' @ command,
        '' --nocolor -y '',
        (if command \<in> {''updb'', ''updatedb'', ''cc'', ''cache-clear''} then ''''
         else ''--format=json''),
        (if name = '''' then '''' else '' '' @ name),
        (if command = ''variable-get'' \<or> command = ''variable-set'' then '' --exact'' else ''''),
        (if command = ''variable-set'' then '' '' @ [CHR 0x27] @ json_dumps val @ [CHR 0x27]
         else if val = '''' then '''' else '' '' @ val)]"
  by (simp add: command_line_def cmd_extra_def hates_format_def Let_def)

section \<open>The decoded payload\<close>

text \<open>
  C8. After a successful \<open>variable-get\<close> the payload is in the result under the name
  of the variable, and \<open>changed\<close>, which says whether the module modified the
  target, is meant to stay false. The payload is written into the same dictionary as
  the fixed keys, though. For a \<open>variable-get\<close> request, in check mode or not,
  whose process exits 0 with output that is empty or decodes to \<open>v\<close>: the get is
  the only process spawned; for the variable called \<open>self\<close> the call of
  \<open>exit_json\<close> raises \<open>TypeError\<close>; for any other the module exits with \<open>v\<close>
  under the name of the variable, where \<open>changed\<close> is false unless the variable is
  itself called \<open>changed\<close> (then it is \<open>v\<close>), and the key \<open>drush\<close> is absent
  unless it is the name of the variable.
\<close>

theorem variable_get_payload_shares_keys:
  assumes "param_command (params m) = ''variable-get''"
    and "param_name (params m) \<noteq> ''''"
    and "cmd = command_line (bin_path m) ''variable-get'' (param_name (params m))
                 (param_value (params m))"
    and "run_command m cmd (param_path (params m)) w = ((0, out, err), w')"
    and "(if out = '''' then Some (PList []) else loads out) = Some v"
  shows "snd (run_module loads m w) = ([(cmd, param_path (params m))], w')
         \<and> (if param_name (params m) = ''self''
            then fst (run_module loads m w) = Raised TypeError
            else (\<exists>res. fst (run_module loads m w) = Exit_json res
                   \<and> map_of res (param_name (params m)) = Some v
                   \<and> map_of res ''changed''
                       = Some (if param_name (params m) = ''changed'' then v else PBool False)
                   \<and> map_of res ''drush''
                       = (if param_name (params m) = ''drush'' then Some v else None)))"
  using assms(1,2,4,5) variable_get_safe unfolding assms(3)
  by (auto simp: run_defs Let_def update_conv' split: if_splits option.splits sum.splits)

theorem variable_get_payload_shares_keys_witness:
  "(\<exists>res. fst (run_module loads_scalar (request ''variable-get'' ''changed'' '''' False)
                  [(0, ''true'', '''')]) = Exit_json res
          \<and> map_of res ''changed'' = Some (PBool True))
   \<and> fst (run_module loads_scalar (request ''variable-get'' ''self'' '''' False)
            [(0, ''true'', '''')]) = Raised TypeError
   \<and> (\<exists>res. fst (run_module loads_scalar
                    (request ''variable-get'' ''cron_safe_threshold'' '''' False)
                    [(0, ''0'', '''')]) = Exit_json res
          \<and> map_of res ''cron_safe_threshold'' = Some (PInt 0)
          \<and> map_of res ''changed'' = Some (PBool False)
          \<and> map_of res ''drush'' = None)"
  using variable_get_payload_shares_keys
      [where m = "request ''variable-get'' ''changed'' '''' False"
         and loads = loads_scalar and w = "[(0, ''true'', '''')]"
         and cmd = "''/usr/bin/drush variable-get --nocolor -y --format=json changed --exact''"
         and out = "''true''" and err = "''''" and w' = "[]" and v = "PBool True"]
    variable_get_payload_shares_keys
      [where m = "request ''variable-get'' ''self'' '''' False"
         and loads = loads_scalar and w = "[(0, ''true'', '''')]"
         and cmd = "''/usr/bin/drush variable-get --nocolor -y --format=json self --exact''"
         and out = "''true''" and err = "''''" and w' = "[]" and v = "PBool True"]
    variable_get_payload_shares_keys
      [where m = "request ''variable-get'' ''cron_safe_threshold'' '''' False"
         and loads = loads_scalar and w = "[(0, ''0'', '''')]"
         and cmd = "''/usr/bin/drush variable-get --nocolor -y --format=json cron_safe_threshold --exact''"
         and out = "''0''" and err = "''''" and w' = "[]" and v = "PInt 0"]
  by (auto simp add: request_def replay_def loads_scalar_def command_line_def cmd_extra_def
        hates_format_def)

text \<open>
  C9, as stated: for every command that ran and exited 0 with empty output, the decoded
  payload is an empty sequence. For a command other than \<open>variable-get\<close> the empty
  list is computed and dropped: the outcome of \<open>core-status\<close> with empty output holds
  the fixed keys and the command line, and no payload.
\<close>

theorem empty_stdout_stores_no_payload:
  "fst (run_module loads_scalar (request ''core-status'' '''' '''' False) [(0, '''', '''')])
     = Exit_json
         [(''changed'', PBool False), (''rc'', PInt 0), (''stderr'', PStr ''''),
          (''stdout'', PStr ''''),
          (''cmd'', PStr ''/usr/bin/drush core-status --nocolor -y --format=json'')]
   \<and> map_of
         [(''changed'', PBool False), (''rc'', PInt 0), (''stderr'', PStr ''''),
          (''stdout'', PStr ''''),
          (''cmd'', PStr ''/usr/bin/drush core-status --nocolor -y --format=json'')]
         ''drush'' = None"
  by (simp add: run_defs Let_def request_def replay_def safe_commands_def
        command_line_def cmd_extra_def hates_format_def)

text \<open>
  C9, amended. Whenever the main command runs and exits 0: output that is not empty and
  does not decode raises the decoder's \<open>ValueError\<close>; otherwise the module exits,
  where the payload \<open>v\<close> is the decoded output when the output is not empty, and
  the empty list when it is. When the command that ran is \<open>variable-get\<close>, \<open>v\<close>
  is stored under the name of the variable, for empty output too (the variable called
  \<open>self\<close> is left aside; for a check-mode set of the variable called \<open>changed\<close>
  that key holds the flag computed from \<open>v\<close>). For any other command \<open>v\<close> is
  stored under \<open>drush\<close> when the output is not empty, and nothing is stored when it
  is empty.
\<close>

theorem payload_decoded_from_stdout:
  assumes "check_params (params m) = None"
    and "eff = (if check_mode m \<and> param_command (params m) = ''variable-set''
                then ''variable-get'' else param_command (params m))"
    and "\<not> check_mode m \<or> eff \<in> safe_commands"
    and "\<not> (eff = ''variable-get'' \<and> param_name (params m) = ''self'')"
    and "w1 = (if \<not> check_mode m \<and> param_command (params m) = ''variable-set''
               then snd (run_command m (vget_cmd (bin_path m) (param_name (params m)))
                           (param_path (params m)) w)
               else w)"
    and "run_command m
           (command_line (bin_path m) eff (param_name (params m)) (param_value (params m)))
           (param_path (params m)) w1 = ((0, out, err), w2)"
  shows "(out \<noteq> '''' \<and> loads out = None \<longrightarrow> fst (run_module loads m w) = Raised ValueError)
       \<and> ((out = '''' \<and> v = PList []) \<or> (out \<noteq> '''' \<and> loads out = Some v) \<longrightarrow>
            (\<exists>res. fst (run_module loads m w) = Exit_json res
               \<and> (if eff = ''variable-get''
                  then map_of res (param_name (params m)) =
                         Some (if param_name (params m) = ''changed'' \<and> check_mode m
                                  \<and> param_command (params m) = ''variable-set''
                               then PBool (v \<noteq> PStr (param_value (params m))) else v)
                  else map_of res ''drush'' = (if out = '''' then None else Some v))))"
proof -
  let ?c = "param_command (params m)"
  consider (set_check) "?c = ''variable-set''" "check_mode m"
    | (set_real) "?c = ''variable-set''" "\<not> check_mode m"
    | (get) "?c = ''variable-get''"
    | (other) "?c \<noteq> ''variable-set''" "?c \<noteq> ''variable-get''"
    by blast
  then show ?thesis
  proof cases
    case set_check
    with assms(1) have "param_name (params m) \<noteq> ''''" "param_value (params m) \<noteq> ''''"
      by (auto simp: check_params_def split: if_splits)
    with set_check assms(4,6) variable_get_safe show ?thesis
      unfolding assms(2,5)
      by (auto simp: run_defs Let_def update_conv' split: if_splits option.splits sum.splits)
  next
    case set_real
    with assms(1) have ne: "param_name (params m) \<noteq> ''''" "param_value (params m) \<noteq> ''''"
      by (auto simp: check_params_def split: if_splits)
    obtain rc0 out0 err0 w0 where
      base: "run_command m (vget_cmd (bin_path m) (param_name (params m)))
               (param_path (params m)) w = ((rc0, out0, err0), w0)"
      by (metis surj_pair)
    from set_real ne assms(6) base variable_set_unsafe show ?thesis
      unfolding assms(2,5)
      by (auto simp: run_defs Let_def update_conv' split: if_splits option.splits sum.splits)
  next
    case get
    with assms(1) have "param_name (params m) \<noteq> ''''"
      by (auto simp: check_params_def split: if_splits)
    with get assms(4,6) variable_get_safe show ?thesis
      unfolding assms(2,5)
      by (auto simp: run_defs Let_def update_conv' split: if_splits option.splits sum.splits)
  next
    case other
    with assms(3,6) show ?thesis
      unfolding assms(2,5)
      by (auto simp: run_defs Let_def update_conv' split: if_splits option.splits sum.splits)
  qed
qed

theorem payload_decoded_from_stdout_witness:
  "(\<exists>res. fst (run_module loads_scalar (request ''drupal-directory'' '''' '''' True)
                  [(0, [CHR 0x22] @ ''/var/www'' @ [CHR 0x22], '''')]) = Exit_json res
          \<and> map_of res ''drush'' = Some (PStr ''/var/www''))
   \<and> (\<exists>res. fst (run_module loads_scalar (request ''variable-get'' ''site_slogan'' '''' False)
                  [(0, '''', '''')]) = Exit_json res
          \<and> map_of res ''site_slogan'' = Some (PList []))
   \<and> (\<exists>res. fst (run_module loads_scalar (request ''cc'' ''all'' '''' False)
                  [(0, '''', '''')]) = Exit_json res
          \<and> map_of res ''drush'' = None)
   \<and> fst (run_module loads_scalar (request ''core-status'' '''' '''' False)
            [(0, ''Drupal is fine'', '''')]) = Raised ValueError"
  using payload_decoded_from_stdout
      [where m = "request ''drupal-directory'' '''' '''' True" and loads = loads_scalar
         and eff = "''drupal-directory''"
         and w = "[(0, [CHR 0x22] @ ''/var/www'' @ [CHR 0x22], '''')]"
         and ?w1.0 = "[(0, [CHR 0x22] @ ''/var/www'' @ [CHR 0x22], '''')]"
         and out = "[CHR 0x22] @ ''/var/www'' @ [CHR 0x22]" and err = "''''" and ?w2.0 = "[]"
         and v = "PStr ''/var/www''"]
    payload_decoded_from_stdout
      [where m = "request ''variable-get'' ''site_slogan'' '''' False" and loads = loads_scalar
         and eff = "''variable-get''"
         and w = "[(0, '''', '''')]" and ?w1.0 = "[(0, '''', '''')]"
         and out = "''''" and err = "''''" and ?w2.0 = "[]" and v = "PList []"]
    payload_decoded_from_stdout
      [where m = "request ''cc'' ''all'' '''' False" and loads = loads_scalar
         and eff = "''cc''"
         and w = "[(0, '''', '''')]" and ?w1.0 = "[(0, '''', '''')]"
         and out = "''''" and err = "''''" and ?w2.0 = "[]" and v = "PList []"]
    payload_decoded_from_stdout
      [where m = "request ''core-status'' '''' '''' False" and loads = loads_scalar
         and eff = "''core-status''"
         and w = "[(0, ''Drupal is fine'', '''')]" and ?w1.0 = "[(0, ''Drupal is fine'', '''')]"
         and out = "''Drupal is fine''" and err = "''''" and ?w2.0 = "[]" and v = "PNone"]
  by (simp add: request_def replay_def loads_scalar_def check_params_def safe_commands_def)

section \<open>Where the original value is kept\<close>

text \<open>
  C6, as stated: for a \<open>variable-set\<close> request in check mode the result holds the
  value found before the change under \<open>original_value\<close>. In check mode the
  assignment to that key is not executed: the run below finds the value 1800 and
  returns a result without the key.
\<close>

theorem check_mode_sets_no_original_value:
  "reported (fst (run_module loads_scalar
                    (request ''variable-set'' ''page_cache_maximum_age'' ''3600'' True)
                    [(0, [CHR 0x22] @ ''1800'' @ [CHR 0x22], '''')]))
     = Some
         [(''changed'', PBool True), (''rc'', PInt 0), (''stderr'', PStr ''''),
          (''stdout'', PStr ([CHR 0x22] @ ''1800'' @ [CHR 0x22])),
          (''cmd'', PStr ''/usr/bin/drush variable-get --nocolor -y --format=json page_cache_maximum_age --exact 3600''),
          (''page_cache_maximum_age'', PStr ''1800'')]
   \<and> map_of
         [(''changed'', PBool True), (''rc'', PInt 0), (''stderr'', PStr ''''),
          (''stdout'', PStr ([CHR 0x22] @ ''1800'' @ [CHR 0x22])),
          (''cmd'', PStr ''/usr/bin/drush variable-get --nocolor -y --format=json page_cache_maximum_age --exact 3600''),
          (''page_cache_maximum_age'', PStr ''1800'')]
         ''original_value'' = None"
  by (simp add: run_defs Let_def reported_def request_def replay_def loads_scalar_def
        safe_commands_def command_line_def cmd_extra_def hates_format_def)

text \<open>
  C6, amended. For a \<open>variable-set\<close> request with name and value outside check mode,
  whose set does not exit 0 with output that fails to decode: a result reaches the
  caller, by \<open>exit_json\<close> or by \<open>fail_json\<close>, and it holds under
  \<open>original_value\<close> the value found before the change, which is the output of the
  \<open>vget\<close> without trailing whitespace when that exits 0 and the empty string when it
  exits with any other code.
\<close>

theorem original_value_in_real_run:
  assumes "\<not> check_mode m"
    and "param_command (params m) = ''variable-set''"
    and "param_name (params m) \<noteq> ''''" and "param_value (params m) \<noteq> ''''"
    and "gcmd = vget_cmd (bin_path m) (param_name (params m))"
    and "run_command m gcmd (param_path (params m)) w = ((rc0, out0, err0), w1)"
    and "scmd = command_line (bin_path m) ''variable-set'' (param_name (params m))
                  (param_value (params m))"
    and "run_command m scmd (param_path (params m)) w1 = ((rc, out, err), w2)"
    and "\<not> (rc = 0 \<and> out \<noteq> '''' \<and> loads out = None)"
  shows "\<exists>res. reported (fst (run_module loads m w)) = Some res
           \<and> map_of res ''original_value''
               = Some (PStr (if rc0 = 0 then rstrip out0 else ''''))"
  using assms(1-4,6,8,9) variable_set_unsafe unfolding assms(5,7)
  by (auto simp: run_defs reported_def Let_def update_conv'
           split: if_splits option.splits sum.splits)

theorem original_value_in_real_run_witness:
  "(\<exists>res. reported (fst (run_module loads_scalar
                          (request ''variable-set'' ''page_cache_maximum_age'' ''3600'' False)
                          [(0, ''1800'' @ [CHR 0x0A], ''''), (0, '''', '''')])) = Some res
          \<and> map_of res ''original_value'' = Some (PStr ''1800''))
   \<and> (\<exists>res. reported (fst (run_module loads_scalar
                          (request ''variable-set'' ''page_cache_maximum_age'' ''3600'' False)
                          [(1, '''', ''No matching variable found.''), (3, '''', ''no database'')]))
            = Some res
          \<and> map_of res ''original_value'' = Some (PStr ''''))"
  using original_value_in_real_run
      [where m = "request ''variable-set'' ''page_cache_maximum_age'' ''3600'' False"
         and loads = loads_scalar
         and w = "[(0, ''1800'' @ [CHR 0x0A], ''''), (0, '''', '''')]"
         and gcmd = "vget_cmd ''/usr/bin/drush'' ''page_cache_maximum_age''"
         and ?rc0.0 = 0 and ?out0.0 = "''1800'' @ [CHR 0x0A]" and ?err0.0 = "''''"
         and ?w1.0 = "[(0, '''', '''')]"
         and scmd = "command_line ''/usr/bin/drush'' ''variable-set'' ''page_cache_maximum_age'' ''3600''"
         and rc = 0 and out = "''''" and err = "''''" and ?w2.0 = "[]"]
    original_value_in_real_run
      [where m = "request ''variable-set'' ''page_cache_maximum_age'' ''3600'' False"
         and loads = loads_scalar
         and w = "[(1, '''', ''No matching variable found.''), (3, '''', ''no database'')]"
         and gcmd = "vget_cmd ''/usr/bin/drush'' ''page_cache_maximum_age''"
         and ?rc0.0 = 1 and ?out0.0 = "''''" and ?err0.0 = "''No matching variable found.''"
         and ?w1.0 = "[(3, '''', ''no database'')]"
         and scmd = "command_line ''/usr/bin/drush'' ''variable-set'' ''page_cache_maximum_age'' ''3600''"
         and rc = 3 and out = "''''" and err = "''no database''" and ?w2.0 = "[]"]
  by (simp add: request_def replay_def loads_scalar_def rstrip_def py_isspace_def)

end
